theory Spec2Isabelle
  imports Complex_Main "HOL-Library.Char_ord" "HOL-Library.List_Lexorder"
begin

section \<open>The code-quality analysis engine of t3kd3t\<close>

text \<open>
  A shallow embedding of \<^verbatim>\<open>lib/codeAnalysis.ts\<close> (\<^verbatim>\<open>analyzeCode\<close>, \<^verbatim>\<open>getAllFiles\<close>,
  \<^verbatim>\<open>calculateBasicComplexity\<close>, \<^verbatim>\<open>calculateBasicMaintainability\<close>,
  \<^verbatim>\<open>calculateOverallScore\<close>) and of the scoring helpers of
  \<^verbatim>\<open>app/api/analyze/route.ts\<close> (\<^verbatim>\<open>calculateOverallScore\<close>, \<^verbatim>\<open>countCriticalIssues\<close>,
  \<^verbatim>\<open>getHealthStatus\<close>, \<^verbatim>\<open>generateRecommendations\<close>).

  Conventions of the embedding.
  \<^item> A JavaScript \<^verbatim>\<open>number\<close> is a \<^typ>\<open>real\<close>: the arithmetic is exact, the rounding of
    IEEE doubles is not modelled. Lengths and counts are \<^typ>\<open>nat\<close>.
  \<^item> A JavaScript string is a \<^typ>\<open>string\<close>, one \<^typ>\<open>char\<close> per code unit; only the
    code units \<open>0..255\<close> exist in the model.
  \<^item> A \<^verbatim>\<open>throw\<close> is the left injection of a sum type.
  \<^item> An object type is a record. Where objects of different types have a property of
    the same name (\<^verbatim>\<open>file\<close>, \<^verbatim>\<open>score\<close>, \<^verbatim>\<open>details\<close>, ...), the field carries a
    prefix for its record.
\<close>

subsection \<open>String primitives\<close>

text \<open>\<^verbatim>\<open>content.split('\n')\<close>: the pieces between line feeds; the empty string gives one
  empty piece.\<close>

fun split_newline :: "string \<Rightarrow> string list" where
  "split_newline [] = [[]]"
| "split_newline (c # cs) =
     (if c = CHR 0x0A then [] # split_newline cs
      else (case split_newline cs of
              [] \<Rightarrow> [[c]]
            | l # ls \<Rightarrow> (c # l) # ls))"

text \<open>The class \<^verbatim>\<open>\s\<close> on the code units below 256: tab, line feed, vertical tab, form
  feed, carriage return, space and no-break space.\<close>

definition is_space :: "char \<Rightarrow> bool" where
  "is_space c \<longleftrightarrow> c \<in> {CHR 0x09, CHR 0x0A, CHR 0x0B, CHR 0x0C, CHR 0x0D, CHR 0x20, CHR 0xA0}"

text \<open>The class \<^verbatim>\<open>\w\<close>: ASCII letters, digits and the underscore.\<close>

definition is_word :: "char \<Rightarrow> bool" where
  "is_word c \<longleftrightarrow>
     (let n = (of_char c :: nat) in
        (65 \<le> n \<and> n \<le> 90) \<or> (97 \<le> n \<and> n \<le> 122) \<or> (48 \<le> n \<and> n \<le> 57) \<or> n = 95)"

definition starts_with :: "string \<Rightarrow> string \<Rightarrow> bool" where
  "starts_with s p \<longleftrightarrow> take (length p) s = p"

subsection \<open>The regular expressions of the metric extractor\<close>

text \<open>
  A matcher tries its pattern at the start of the text and returns the text after the
  match. Each of the source's patterns is deterministic at a given start position: the
  character classes that follow one another are disjoint, so the greedy quantifiers never
  have to give anything back.
\<close>

text \<open>\<^verbatim>\<open>/kw\s*\(/\<close> for a keyword \<open>kw\<close>.\<close>

definition match_keyword_paren :: "string \<Rightarrow> string \<Rightarrow> string option" where
  "match_keyword_paren kw s =
     (if starts_with s kw then
        (case dropWhile is_space (drop (length kw) s) of
           [] \<Rightarrow> None
         | c # r \<Rightarrow> if c = CHR ''('' then Some r else None)
      else None)"

text \<open>\<^verbatim>\<open>/\/\//\<close>.\<close>

definition match_line_comment :: "string \<Rightarrow> string option" where
  "match_line_comment s = (if starts_with s ''//'' then Some (drop 2 s) else None)"

text \<open>The text after the first occurrence of a literal, if there is one.\<close>

fun after_first :: "string \<Rightarrow> string \<Rightarrow> string option" where
  "after_first lit [] = (if lit = [] then Some [] else None)"
| "after_first lit (c # cs) =
     (if starts_with (c # cs) lit then Some (drop (length lit) (c # cs))
      else after_first lit cs)"

text \<open>\<^verbatim>\<open>/\/\*[\s\S]*?\*\//\<close>: the opening \<^verbatim>\<open>/*\<close>, then (lazily) anything up to the first
  \<^verbatim>\<open>*/\<close> after it.\<close>

definition match_block_comment :: "string \<Rightarrow> string option" where
  "match_block_comment s =
     (if starts_with s ''/*'' then after_first ''*/'' (drop 2 s) else None)"

text \<open>\<^verbatim>\<open>/function\s+\w+\s*\(/\<close>.\<close>

definition match_function_decl :: "string \<Rightarrow> string option" where
  "match_function_decl s =
     (if starts_with s ''function'' then
        (let r1 = drop 8 s;
             r2 = dropWhile is_space r1;
             r3 = dropWhile is_word r2;
             r4 = dropWhile is_space r3
         in if takeWhile is_space r1 = [] \<or> takeWhile is_word r2 = [] then None
            else (case r4 of
                    [] \<Rightarrow> None
                  | c # r \<Rightarrow> if c = CHR ''('' then Some r else None))
      else None)"

text \<open>
  \<^verbatim>\<open>(content.match(/.../g) || []).length\<close>: the number of matches found scanning from the
  left, each search resuming where the previous match ended. None of the patterns above
  matches the empty string; the length test only makes the recursion well-founded for an
  arbitrary matcher.
\<close>

function count_matches :: "(string \<Rightarrow> string option) \<Rightarrow> string \<Rightarrow> nat" where
  "count_matches m [] = 0"
| "count_matches m (c # cs) =
     (case m (c # cs) of
        None \<Rightarrow> count_matches m cs
      | Some r \<Rightarrow>
          if length r < length (c # cs) then Suc (count_matches m r)
          else count_matches m cs)"
  by pat_completeness auto
termination
  by (relation "measure (\<lambda>(m, s). length s)") auto

subsection \<open>Per-file metrics\<close>

definition lineCount :: "string \<Rightarrow> nat" where
  "lineCount content = length (split_newline content)"

definition ifCount :: "string \<Rightarrow> nat" where
  "ifCount content = count_matches (match_keyword_paren ''if'') content"

definition forCount :: "string \<Rightarrow> nat" where
  "forCount content = count_matches (match_keyword_paren ''for'') content"

definition whileCount :: "string \<Rightarrow> nat" where
  "whileCount content = count_matches (match_keyword_paren ''while'') content"

definition switchCount :: "string \<Rightarrow> nat" where
  "switchCount content = count_matches (match_keyword_paren ''switch'') content"

definition calculateBasicComplexity :: "string \<Rightarrow> real" where
  "calculateBasicComplexity content =
     (let lines = split_newline content;
          complexity = 1 + ifCount content + forCount content + whileCount content
                         + switchCount content
      in min 100 ((real complexity / real (length lines)) * 100))"

definition commentCount :: "string \<Rightarrow> nat" where
  "commentCount content =
     count_matches match_line_comment content + count_matches match_block_comment content"

definition functionCount :: "string \<Rightarrow> nat" where
  "functionCount content = count_matches match_function_decl content"

definition calculateBasicMaintainability :: "string \<Rightarrow> real" where
  "calculateBasicMaintainability content =
     (let lines = split_newline content;
          ratio = real (commentCount content + functionCount content) / real (length lines)
      in min 100 (ratio * 100))"

text \<open>\<^verbatim>\<open>Math.round\<close>: the nearest integer, a tie going up.\<close>

definition Math_round :: "real \<Rightarrow> real" where
  "Math_round x = of_int \<lfloor>x + 1 / 2\<rfloor>"

text \<open>\<^verbatim>\<open>calculateOverallScore\<close> of \<^verbatim>\<open>codeAnalysis.ts\<close>: the rounded mean, 0 for no scores.\<close>

definition calculateOverallScore :: "real list \<Rightarrow> real" where
  "calculateOverallScore scores =
     (if length scores = 0 then 0
      else Math_round (foldl (\<lambda>a b. a + b) 0 scores / real (length scores)))"

subsection \<open>The directory tree and file discovery\<close>

text \<open>
  What \<^verbatim>\<open>readdirSync(dir, { withFileTypes: true })\<close> sees at a path. A directory holds its
  entries in the order in which \<^verbatim>\<open>readdirSync\<close> returns them; the source never sorts them.
  Symbolic links are not followed (\<^verbatim>\<open>isDirectory()\<close> and \<^verbatim>\<open>isFile()\<close> are both false on
  the entry of a link), so what is walked is a finite tree.
\<close>

datatype node =
    Absent                            \<comment> \<open>nothing at this path\<close>
  | RegularFile
  | Special                           \<comment> \<open>a link, socket, device, ...\<close>
  | DeniedDir                         \<comment> \<open>a directory that cannot be listed\<close>
  | Dir "(string \<times> node) list"

datatype error =
    ENOENT string | ENOTDIR string | EACCES string
  | ReadError string                  \<comment> \<open>\<^verbatim>\<open>readFileSync\<close> failed on the path\<close>

fun readdirSync :: "node \<Rightarrow> string \<Rightarrow> error + (string \<times> node) list" where
  "readdirSync (Dir entries) dir = Inr entries"
| "readdirSync Absent dir = Inl (ENOENT dir)"
| "readdirSync DeniedDir dir = Inl (EACCES dir)"
| "readdirSync RegularFile dir = Inl (ENOTDIR dir)"
| "readdirSync Special dir = Inl (ENOTDIR dir)"

fun isDirectory :: "node \<Rightarrow> bool" where
  "isDirectory (Dir entries) = True"
| "isDirectory DeniedDir = True"
| "isDirectory _ = False"

fun isFile :: "node \<Rightarrow> bool" where
  "isFile RegularFile = True"
| "isFile _ = False"

text \<open>\<^verbatim>\<open>path.join(dir, name)\<close> for a normalised directory path without a trailing
  separator and an entry name, which is how \<^verbatim>\<open>getAllFiles\<close> calls it.\<close>

definition join :: "string \<Rightarrow> string \<Rightarrow> string" where
  "join dir name = dir @ ''/'' @ name"

text \<open>\<^verbatim>\<open>path.extname\<close> of an entry name: from the last dot on; empty when there is no dot,
  when the only dot is the first character, and for \<^verbatim>\<open>..\<close>.\<close>

definition extname :: "string \<Rightarrow> string" where
  "extname name =
     (let after = rev (takeWhile (\<lambda>c. c \<noteq> CHR ''.'') (rev name));
          upto = dropWhile (\<lambda>c. c \<noteq> CHR ''.'') (rev name)
      in if upto = [] \<or> tl upto = [] \<or> name = ''..'' then [] else CHR ''.'' # after)"

text \<open>
  \<^verbatim>\<open>getAllFiles\<close>. The \<^verbatim>\<open>try\<close> block holds the listing and the loop; only the listing
  can raise (the recursive calls catch their own errors), and it raises before anything
  was pushed, so the \<^verbatim>\<open>catch\<close> branch returns the empty list. The loop pushes in entry
  order: the files of a subdirectory stand where the subdirectory stands.
\<close>

fun getAllFiles :: "node \<Rightarrow> string \<Rightarrow> string list \<Rightarrow> string list"
  and getAllFiles_loop :: "(string \<times> node) list \<Rightarrow> string \<Rightarrow> string list \<Rightarrow> string list"
where
  "getAllFiles (Dir entries) dir extensions = getAllFiles_loop entries dir extensions"
| "getAllFiles Absent dir extensions = []"
| "getAllFiles DeniedDir dir extensions = []"
| "getAllFiles RegularFile dir extensions = []"
| "getAllFiles Special dir extensions = []"
| "getAllFiles_loop [] dir extensions = []"
| "getAllFiles_loop ((name, entry) # entries) dir extensions =
     (let fullPath = join dir name in
        (if isDirectory entry \<and> \<not> starts_with name ''.'' then
           getAllFiles entry fullPath extensions
         else if isFile entry \<and> extname name \<in> set extensions then [fullPath]
         else [])
        @ getAllFiles_loop entries dir extensions)"

subsection \<open>The analysis\<close>

text \<open>\<^verbatim>\<open>s.replace(pattern, replacement)\<close> with a string pattern: the first occurrence only.\<close>

fun replace_first :: "string \<Rightarrow> string \<Rightarrow> string \<Rightarrow> string" where
  "replace_first pat rep [] = (if pat = [] then rep else [])"
| "replace_first pat rep (c # cs) =
     (if starts_with (c # cs) pat then rep @ drop (length pat) (c # cs)
      else c # replace_first pat rep cs)"

record FileAnalysis =
  fa_file :: string
  fa_complexity :: real
  fa_maintainability :: real
  fa_lines :: nat

record ComplexityDetail =
  cd_file :: string
  cd_complexity :: real
  cd_maintainability :: real

record ComplexityPart =
  c_score :: real
  c_details :: "ComplexityDetail list"

record DuplicationInstance =
  di_files :: "string list"
  di_lines :: nat
  di_fragment :: string

record DuplicationPart =
  percentage :: real
  instances :: "DuplicationInstance list"

record MaintainabilityDetail =
  md_file :: string
  md_score :: real
  issues :: "string list"

record MaintainabilityPart =
  m_score :: real
  m_details :: "MaintainabilityDetail list"

text \<open>The type \<^verbatim>\<open>AnalysisResult\<close> of \<^verbatim>\<open>codeAnalysis.ts\<close>: these three properties and no
  other.\<close>

record AnalysisResult =
  complexity :: ComplexityPart
  duplication :: DuplicationPart
  maintainability :: MaintainabilityPart

text \<open>
  The state of the file system a run reads: the tree at the project path, and what
  \<^verbatim>\<open>readFileSync(path, 'utf-8')\<close> returns for a path (\<open>None\<close> when it raises). Decoding
  as UTF-8 never raises in Node: invalid bytes become replacement characters.
\<close>

record FileSystem =
  tree :: node
  contents :: "string \<Rightarrow> string option"

definition readFileSync :: "FileSystem \<Rightarrow> string \<Rightarrow> error + string" where
  "readFileSync fs path =
     (case contents fs path of None \<Rightarrow> Inl (ReadError path) | Some text \<Rightarrow> Inr text)"

text \<open>The callback of \<^verbatim>\<open>files.map\<close> in \<^verbatim>\<open>analyzeCode\<close>.\<close>

definition analyzeFile :: "FileSystem \<Rightarrow> string \<Rightarrow> string \<Rightarrow> error + FileAnalysis" where
  "analyzeFile fs projectPath file =
     (case readFileSync fs file of
        Inl e \<Rightarrow> Inl e
      | Inr content \<Rightarrow>
          Inr \<lparr> fa_file = replace_first projectPath [] file,
                fa_complexity = calculateBasicComplexity content,
                fa_maintainability = calculateBasicMaintainability content,
                fa_lines = length (split_newline content) \<rparr>)"

text \<open>\<^verbatim>\<open>Array.prototype.map\<close> with a callback that may throw: the first throw ends the
  whole map.\<close>

fun map_throwing :: "('a \<Rightarrow> error + 'b) \<Rightarrow> 'a list \<Rightarrow> error + 'b list" where
  "map_throwing f [] = Inr []"
| "map_throwing f (x # xs) =
     (case f x of
        Inl e \<Rightarrow> Inl e
      | Inr y \<Rightarrow> (case map_throwing f xs of Inl e \<Rightarrow> Inl e | Inr ys \<Rightarrow> Inr (y # ys)))"

definition extensions :: "string list" where
  "extensions = [''.ts'', ''.tsx'', ''.js'', ''.jsx'']"

text \<open>\<^verbatim>\<open>analyzeCode\<close>. Its \<^verbatim>\<open>catch\<close> logs the error and throws it again.\<close>

definition analyzeCode :: "FileSystem \<Rightarrow> string \<Rightarrow> error + AnalysisResult" where
  "analyzeCode fs projectPath =
     (let files = getAllFiles (tree fs) projectPath extensions in
        case map_throwing (analyzeFile fs projectPath) files of
          Inl e \<Rightarrow> Inl e
        | Inr fileAnalyses \<Rightarrow>
            (let complexityScore = calculateOverallScore (map fa_complexity fileAnalyses);
                 maintainabilityScore =
                   calculateOverallScore (map fa_maintainability fileAnalyses)
             in Inr \<lparr> complexity =
                        \<lparr> c_score = complexityScore,
                          c_details =
                            map (\<lambda>f. \<lparr> cd_file = fa_file f,
                                        cd_complexity = fa_complexity f,
                                        cd_maintainability = fa_maintainability f \<rparr>)
                                fileAnalyses \<rparr>,
                      duplication = \<lparr> percentage = 0, instances = [] \<rparr>,
                      maintainability =
                        \<lparr> m_score = maintainabilityScore,
                          m_details =
                            map (\<lambda>f. \<lparr> md_file = fa_file f,
                                        md_score = fa_maintainability f,
                                        issues = [] \<rparr>)
                                fileAnalyses \<rparr> \<rparr>))"

text \<open>The object that \<^verbatim>\<open>analyzeCode\<close> returns, as a function of \<^verbatim>\<open>fileAnalyses\<close>; see
  \<open>analyzeCode_Inr_D\<close> below.\<close>

definition assemble :: "FileAnalysis list \<Rightarrow> AnalysisResult" where
  "assemble fileAnalyses =
     \<lparr> complexity =
         \<lparr> c_score = calculateOverallScore (map fa_complexity fileAnalyses),
           c_details =
             map (\<lambda>f. \<lparr> cd_file = fa_file f, cd_complexity = fa_complexity f,
                         cd_maintainability = fa_maintainability f \<rparr>) fileAnalyses \<rparr>,
       duplication = \<lparr> percentage = 0, instances = [] \<rparr>,
       maintainability =
         \<lparr> m_score = calculateOverallScore (map fa_maintainability fileAnalyses),
           m_details =
             map (\<lambda>f. \<lparr> md_file = fa_file f, md_score = fa_maintainability f,
                         issues = [] \<rparr>) fileAnalyses \<rparr> \<rparr>"

subsection \<open>Scoring and recommendations of the analyze route\<close>

text \<open>\<^verbatim>\<open>calculateOverallScore\<close> of \<^verbatim>\<open>route.ts\<close> (the name is taken by the function of
  \<^verbatim>\<open>codeAnalysis.ts\<close> above).\<close>

definition route_calculateOverallScore :: "AnalysisResult \<Rightarrow> real" where
  "route_calculateOverallScore results =
     (let complexityScore = c_score (complexity results);
          maintainabilityScore = m_score (maintainability results);
          duplicationScore = 100 - percentage (duplication results)
      in Math_round (complexityScore * (3 / 10) + maintainabilityScore * (4 / 10)
                     + duplicationScore * (3 / 10)))"

definition countCriticalIssues :: "AnalysisResult \<Rightarrow> nat" where
  "countCriticalIssues results =
     foldl (\<lambda>count detail. count + (if length (issues detail) > 0 then 1 else 0)) 0
       (m_details (maintainability results))"

definition getHealthStatus :: "real \<Rightarrow> string" where
  "getHealthStatus score =
     (if score \<ge> 80 then ''Excellent''
      else if score \<ge> 70 then ''Good''
      else if score \<ge> 50 then ''Fair''
      else ''Needs Improvement'')"

text \<open>The file-specific part of \<^verbatim>\<open>generateRecommendations\<close>: the first three details
  with an issue, each with its first issue.\<close>

definition fileRecommendations :: "AnalysisResult \<Rightarrow> string list" where
  "fileRecommendations results =
     map (\<lambda>detail. ''Improve maintainability in '' @ md_file detail @ '': ''
                     @ (case issues detail of [] \<Rightarrow> ''undefined'' | i # _ \<Rightarrow> i))
       (take 3 (filter (\<lambda>detail. length (issues detail) > 0)
                  (m_details (maintainability results))))"

text \<open>The three threshold rules of \<^verbatim>\<open>generateRecommendations\<close>, in the order of the
  source.\<close>

definition thresholdRecommendations :: "AnalysisResult \<Rightarrow> string list" where
  "thresholdRecommendations results =
     (if c_score (complexity results) > 70
      then [''Consider breaking down complex functions into smaller, more manageable pieces'']
      else [])
     @ (if m_score (maintainability results) < 65
        then [''Focus on improving code maintainability through better documentation and simpler code structures'']
        else [])
     @ (if percentage (duplication results) > 15
        then [''Reduce code duplication by extracting common functionality into shared components or utilities'']
        else [])"

definition generateRecommendations :: "AnalysisResult \<Rightarrow> string list" where
  "generateRecommendations results =
     thresholdRecommendations results @ fileRecommendations results"

subsection \<open>Occurrences of a keyword\<close>

text \<open>
  The number of occurrences of a keyword construct in a text, stated without reference
  to a scan: the number of positions at which the keyword, optional white space and an
  opening parenthesis stand.
\<close>

definition occurrences :: "string \<Rightarrow> string \<Rightarrow> nat" where
  "occurrences kw content =
     length (filter (\<lambda>i. match_keyword_paren kw (drop i content) \<noteq> None)
               [0..<length content])"

text \<open>The same number by recursion on the text, for an arbitrary matcher.\<close>

fun starts :: "(string \<Rightarrow> string option) \<Rightarrow> string \<Rightarrow> nat" where
  "starts m [] = 0"
| "starts m (c # cs) = (if m (c # cs) = None then 0 else 1) + starts m cs"

subsection \<open>The complexity formula in the words of the specification\<close>

text \<open>
  The specification counts the multi-way branch keywords \<^verbatim>\<open>switch\<close> and \<^verbatim>\<open>match\<close>. The
  following definition is written from that sentence, not from the source: it adds the
  occurrences of \<^verbatim>\<open>match\<close> to those of the other four keywords, and is compared with
  \<^const>\<open>calculateBasicComplexity\<close> below.
\<close>

definition specified_complexity :: "string \<Rightarrow> real" where
  "specified_complexity content =
     min 100 ((real (1 + occurrences ''if'' content + occurrences ''for'' content
                       + occurrences ''while'' content
                       + (occurrences ''switch'' content + occurrences ''match'' content))
               / real (lineCount content)) * 100)"

section \<open>Properties\<close>

subsection \<open>Lines and sums\<close>

lemma split_newline_not_Nil: "split_newline s \<noteq> []"
  by (induction s) (auto split: list.splits)

text \<open>The number of pieces is one more than the number of line feeds.\<close>

lemma length_split_newline:
  "length (split_newline s) = Suc (length (filter (\<lambda>c. c = CHR 0x0A) s))"
  by (induction s) (auto split: list.splits simp: split_newline_not_Nil)

lemma lineCount_pos: "0 < lineCount content"
  by (simp add: lineCount_def length_split_newline)

lemma foldl_plus_sum_list: "foldl (\<lambda>a b. a + b) (z::real) xs = z + sum_list xs"
  by (induction xs arbitrary: z) simp_all

lemma Math_round_eq_round: "Math_round x = real_of_int (round x)"
  by (simp add: Math_round_def round_def)

subsection \<open>Discovery\<close>

text \<open>\<^verbatim>\<open>getAllFiles\<close> returns no file when the listing raises, and runs the loop over
  the listing otherwise.\<close>

lemma getAllFiles_readdirSync:
  "getAllFiles t dir exts =
     (case readdirSync t dir of Inl e \<Rightarrow> [] | Inr entries \<Rightarrow> getAllFiles_loop entries dir exts)"
  by (cases t) simp_all

subsection \<open>The scan counts every occurrence once\<close>

lemma starts_positions:
  "starts m s = length (filter (\<lambda>i. m (drop i s) \<noteq> None) [0..<length s])"
proof (induction s)
  case Nil
  then show ?case by simp
next
  case (Cons c cs)
  have "[0..<Suc (length cs)] = 0 # [Suc 0..<Suc (length cs)]"
    by (rule upt_conv_Cons) simp
  also have "\<dots> = 0 # map Suc [0..<length cs]"
    by (simp only: map_Suc_upt)
  finally have "[0..<length (c # cs)] = 0 # map Suc [0..<length cs]"
    by simp
  then show ?case using Cons.IH
    by (simp add: filter_map comp_def)
qed

lemma occurrences_starts: "occurrences kw s = starts (match_keyword_paren kw) s"
  by (simp add: occurrences_def starts_positions)

text \<open>A match is the keyword, white space, and the parenthesis.\<close>

lemma match_keyword_paren_shape:
  assumes "match_keyword_paren kw s = Some r"
  shows "\<exists>ws. s = kw @ ws @ CHR ''('' # r \<and> (\<forall>c\<in>set ws. is_space c)"
proof -
  from assms have sw: "take (length kw) s = kw"
    by (simp add: match_keyword_paren_def starts_with_def split: if_splits)
  from assms sw have dw: "dropWhile is_space (drop (length kw) s) = CHR ''('' # r"
    by (auto simp: match_keyword_paren_def starts_with_def split: if_splits list.splits)
  have "s = take (length kw) s @ drop (length kw) s" by simp
  also have "drop (length kw) s
      = takeWhile is_space (drop (length kw) s) @ dropWhile is_space (drop (length kw) s)"
    by simp
  finally have "s = kw @ takeWhile is_space (drop (length kw) s) @ CHR ''('' # r"
    using sw dw by simp
  moreover have "\<forall>c\<in>set (takeWhile is_space (drop (length kw) s)). is_space c"
    by (auto dest: set_takeWhileD)
  ultimately show ?thesis by blast
qed

lemma match_keyword_paren_other_head:
  "c \<noteq> k \<Longrightarrow> match_keyword_paren (k # ks) (c # cs) = None"
  by (simp add: match_keyword_paren_def starts_with_def)

lemma starts_skip:
  "\<forall>c\<in>set mid. c \<noteq> k \<Longrightarrow>
     starts (match_keyword_paren (k # ks)) (mid @ r) = starts (match_keyword_paren (k # ks)) r"
  by (induction mid) (simp_all add: match_keyword_paren_other_head)

text \<open>
  When the first letter of the keyword does not occur again in it (and is neither white
  space nor a parenthesis), no match starts inside another one, so resuming the scan
  after a match loses nothing.
\<close>

lemma count_matches_keyword:
  assumes "k \<notin> set ks" and "\<not> is_space k" and "k \<noteq> CHR ''(''"
  shows "count_matches (match_keyword_paren (k # ks)) s = starts (match_keyword_paren (k # ks)) s"
proof (induction "match_keyword_paren (k # ks)" s rule: count_matches.induct)
  case 1
  then show ?case by simp
next
  case (2 c cs)
  show ?case
  proof (cases "match_keyword_paren (k # ks) (c # cs)")
    case None
    with 2 show ?thesis by simp
  next
    case (Some r)
    then obtain ws where s: "c # cs = (k # ks) @ ws @ CHR ''('' # r"
      and ws: "\<forall>c\<in>set ws. is_space c"
      using match_keyword_paren_shape by blast
    from s have cs: "cs = (ks @ ws @ [CHR ''(''] ) @ r" by simp
    from s have len: "length r < length (c # cs)" by simp
    have "\<forall>c\<in>set (ks @ ws @ [CHR ''('']). c \<noteq> k"
      using assms ws by auto
    then have "starts (match_keyword_paren (k # ks)) cs = starts (match_keyword_paren (k # ks)) r"
      unfolding cs by (rule starts_skip)
    moreover have "count_matches (match_keyword_paren (k # ks)) r
          = starts (match_keyword_paren (k # ks)) r"
      using "2.hyps"(2) [OF Some len] .
    ultimately show ?thesis using Some len by simp
  qed
qed

lemma keyword_counts:
  "ifCount content = occurrences ''if'' content"
  "forCount content = occurrences ''for'' content"
  "whileCount content = occurrences ''while'' content"
  "switchCount content = occurrences ''switch'' content"
  by (simp_all add: ifCount_def forCount_def whileCount_def switchCount_def
      occurrences_starts count_matches_keyword is_space_def)

subsection \<open>A map whose callback may throw\<close>

lemma map_throwing_Inr_D: "map_throwing f xs = Inr ys \<Longrightarrow> map f xs = map Inr ys"
  by (induction xs arbitrary: ys) (auto split: sum.splits)

lemma map_throwing_Inr_I: "map f xs = map Inr ys \<Longrightarrow> map_throwing f xs = Inr ys"
proof (induction xs arbitrary: ys)
  case Nil
  then show ?case by simp
next
  case (Cons x xs)
  then obtain y ys' where ys: "ys = y # ys'" by (cases ys) auto
  with Cons.prems have "f x = Inr y" "map f xs = map Inr ys'" by simp_all
  with Cons.IH ys show ?case by simp
qed

lemma map_throwing_length: "map_throwing f xs = Inr ys \<Longrightarrow> length ys = length xs"
  using map_throwing_Inr_D [of f xs ys] by (metis length_map)

text \<open>The error of the map is the error of the first element that throws.\<close>

lemma map_throwing_Inl_first:
  "\<forall>a\<in>set as. \<exists>y. f a = Inr y \<Longrightarrow> f b = Inl e \<Longrightarrow> map_throwing f (as @ b # bs) = Inl e"
  by (induction as) (auto split: sum.splits)

lemma map_throwing_Inl_D: "map_throwing f xs = Inl e \<Longrightarrow> \<exists>x\<in>set xs. f x = Inl e"
  by (induction xs) (auto split: sum.splits)

lemma map_throwing_total:
  "\<forall>x\<in>set xs. \<exists>y. f x = Inr y \<Longrightarrow> \<exists>ys. map_throwing f xs = Inr ys"
  by (induction xs) (auto split: sum.splits)


lemma map_throwing_Inl_split:
  "map_throwing f xs = Inl e \<Longrightarrow>
     \<exists>as b bs. xs = as @ b # bs \<and> (\<forall>a\<in>set as. \<exists>y. f a = Inr y) \<and> f b = Inl e"
proof (induction xs)
  case Nil
  then show ?case by simp
next
  case (Cons x xs)
  show ?case
  proof (cases "f x")
    case (Inl e')
    with Cons.prems have "e' = e" by simp
    with Inl have "x # xs = [] @ x # xs \<and> (\<forall>a\<in>set []. \<exists>y. f a = Inr y) \<and> f x = Inl e"
      by simp
    then show ?thesis by blast
  next
    case (Inr y)
    with Cons.prems have "map_throwing f xs = Inl e"
      by (simp split: sum.splits)
    from Cons.IH [OF this] obtain as b bs where
      xs: "xs = as @ b # bs" and as: "\<forall>a\<in>set as. \<exists>y. f a = Inr y" and b: "f b = Inl e"
      by blast
    from xs as Inr b
    have "x # xs = (x # as) @ b # bs \<and> (\<forall>a\<in>set (x # as). \<exists>y. f a = Inr y) \<and> f b = Inl e"
      by simp
    then show ?thesis by blast
  qed
qed

lemma map_throwing_pointwise:
  "map_throwing f xs = Inr ys \<Longrightarrow> \<forall>y\<in>set ys. \<exists>x\<in>set xs. f x = Inr y"
proof (induction xs arbitrary: ys)
  case Nil
  then show ?case by simp
next
  case (Cons x xs)
  from Cons.prems obtain a as where
    a: "f x = Inr a" and as: "map_throwing f xs = Inr as" and ys: "ys = a # as"
    by (auto split: sum.splits)
  from Cons.IH [OF as] a ys show ?case by auto
qed

subsection \<open>Bounds of the scores\<close>

lemma Math_round_bounds:
  assumes "0 \<le> x" and "x \<le> 100"
  shows "0 \<le> Math_round x \<and> Math_round x \<le> 100"
proof -
  have "0 \<le> \<lfloor>x + 1 / 2\<rfloor>" using assms(1) by simp
  moreover have "\<lfloor>x + 1 / 2\<rfloor> \<le> 100" using assms(2) by (simp add: floor_le_iff)
  ultimately show ?thesis by (simp add: Math_round_def)
qed

lemma sum_list_bounds:
  "\<forall>x\<in>set xs. 0 \<le> x \<and> x \<le> (100::real) \<Longrightarrow>
     0 \<le> sum_list xs \<and> sum_list xs \<le> 100 * real (length xs)"
  by (induction xs) (auto simp: algebra_simps)

lemma calculateOverallScore_bounds:
  assumes "\<forall>x\<in>set xs. 0 \<le> x \<and> x \<le> 100"
  shows "0 \<le> calculateOverallScore xs \<and> calculateOverallScore xs \<le> 100"
proof (cases "xs = []")
  case True
  then show ?thesis by (simp add: calculateOverallScore_def)
next
  case False
  then have n: "0 < real (length xs)" by simp
  from sum_list_bounds [OF assms]
  have s: "0 \<le> sum_list xs" "sum_list xs \<le> 100 * real (length xs)" by simp_all
  from s(1) n have 1: "0 \<le> sum_list xs / real (length xs)" by simp
  from s(2) n have 2: "sum_list xs / real (length xs) \<le> 100"
    by (simp add: divide_le_eq)
  from Math_round_bounds [OF 1 2] False show ?thesis
    by (simp add: calculateOverallScore_def foldl_plus_sum_list)
qed

lemma calculateBasicComplexity_bounds:
  "0 \<le> calculateBasicComplexity c \<and> calculateBasicComplexity c \<le> 100"
  unfolding calculateBasicComplexity_def Let_def by simp

lemma calculateBasicMaintainability_bounds:
  "0 \<le> calculateBasicMaintainability c \<and> calculateBasicMaintainability c \<le> 100"
  unfolding calculateBasicMaintainability_def Let_def by simp

subsection \<open>Unfolding the model on a concrete project\<close>

lemmas metric_defs =
  calculateBasicComplexity_def calculateBasicMaintainability_def ifCount_def forCount_def
  whileCount_def switchCount_def commentCount_def functionCount_def lineCount_def
  match_keyword_paren_def match_line_comment_def match_block_comment_def
  match_function_decl_def

lemmas string_defs = starts_with_def is_space_def

lemmas run_defs =
  analyzeCode_def analyzeFile_def readFileSync_def extensions_def join_def extname_def
  calculateOverallScore_def Math_round_def

subsection \<open>The shape of a successful run\<close>

lemma analyzeCode_Inr_D:
  "analyzeCode fs p = Inr r \<Longrightarrow>
     \<exists>fas. map_throwing (analyzeFile fs p) (getAllFiles (tree fs) p extensions) = Inr fas
           \<and> r = assemble fas"
  unfolding analyzeCode_def Let_def assemble_def
  by (cases "map_throwing (analyzeFile fs p) (getAllFiles (tree fs) p extensions)") auto






lemma assemble_issues:
  "\<forall>d\<in>set (m_details (maintainability (assemble fas))). issues d = []"
  by (simp add: assemble_def)

lemma analyzeFile_Inl_iff:
  "analyzeFile fs p f = Inl e \<longleftrightarrow> contents fs f = None \<and> e = ReadError f"
  by (auto simp: analyzeFile_def readFileSync_def split: option.splits)

lemma analyzeFile_Inr_iff:
  "(\<exists>a. analyzeFile fs p f = Inr a) \<longleftrightarrow> contents fs f \<noteq> None"
  by (auto simp: analyzeFile_def readFileSync_def split: option.splits)

lemma analyzeCode_Inl_iff_map:
  "analyzeCode fs p = Inl e \<longleftrightarrow>
     map_throwing (analyzeFile fs p) (getAllFiles (tree fs) p extensions) = Inl e"
  unfolding analyzeCode_def Let_def
  by (cases "map_throwing (analyzeFile fs p) (getAllFiles (tree fs) p extensions)") auto

section \<open>The claims\<close>

subsection \<open>C1: duplication\<close>

text \<open>
  Claim C1 says that two files sharing an exact duplicate function body of at least four
  lines give exactly one duplication instance and a percentage above 0. The code has no
  detector: the \<^verbatim>\<open>duplication\<close> property of the result is the constant
  \<^verbatim>\<open>{ percentage: 0, instances: [] }\<close>. Below, the run on a project of two files with the
  same six-line function (a four-line body): it succeeds and reports no duplication.
\<close>

theorem duplication_not_detected:
  "(case analyzeCode
          \<lparr> tree = Dir [(''a.ts'', RegularFile), (''b.ts'', RegularFile)],
            contents = (\<lambda>path. if path = ''/p/a.ts'' \<or> path = ''/p/b.ts''
               then Some ''function f(x) {\<newline>  const a = x + 1;\<newline>  const b = a * 2;\<newline>  const c = b - 3;\<newline>  return c;\<newline>}''
               else None) \<rparr> ''/p''
    of Inl e \<Rightarrow> None | Inr r \<Rightarrow> Some (duplication r))
   = Some \<lparr> percentage = 0, instances = [] \<rparr>"
  by (simp add: run_defs string_defs)

subsection \<open>C2: a missing root, a project without eligible files\<close>

text \<open>
  Claim C2 says that the run fails when the root does not exist and when it holds no file
  with a recognised extension. In the code, \<^verbatim>\<open>getAllFiles\<close> catches the error of the
  listing and returns no files, and \<^verbatim>\<open>analyzeCode\<close> accepts an empty file list: each of
  these runs returns a result with scores 0 and empty details. Below, the run on a missing root, on
  an empty directory, and on a directory that holds only \<^verbatim>\<open>README.md\<close>.
\<close>

theorem missing_root_and_empty_project_return_a_result:
  "analyzeCode \<lparr> tree = Absent, contents = (\<lambda>path. None) \<rparr> ''/p''
     = Inr \<lparr> complexity = \<lparr> c_score = 0, c_details = [] \<rparr>,
             duplication = \<lparr> percentage = 0, instances = [] \<rparr>,
             maintainability = \<lparr> m_score = 0, m_details = [] \<rparr> \<rparr>
   \<and> analyzeCode \<lparr> tree = Dir [], contents = (\<lambda>path. None) \<rparr> ''/p''
     = Inr \<lparr> complexity = \<lparr> c_score = 0, c_details = [] \<rparr>,
             duplication = \<lparr> percentage = 0, instances = [] \<rparr>,
             maintainability = \<lparr> m_score = 0, m_details = [] \<rparr> \<rparr>
   \<and> analyzeCode \<lparr> tree = Dir [(''README.md'', RegularFile)], contents = (\<lambda>path. None) \<rparr> ''/p''
     = Inr \<lparr> complexity = \<lparr> c_score = 0, c_details = [] \<rparr>,
             duplication = \<lparr> percentage = 0, instances = [] \<rparr>,
             maintainability = \<lparr> m_score = 0, m_details = [] \<rparr> \<rparr>"
  by (simp add: run_defs string_defs)

subsection \<open>C3: the overview\<close>

text \<open>
  Claim C3 is about an \<^verbatim>\<open>overview\<close> record in the result (\<^verbatim>\<open>totalFiles\<close>, \<^verbatim>\<open>totalLines\<close>,
  \<^verbatim>\<open>technicalDebtRatio\<close>). The object that \<^verbatim>\<open>analyzeCode\<close> returns has the properties
  \<^verbatim>\<open>complexity\<close>, \<^verbatim>\<open>duplication\<close> and \<^verbatim>\<open>maintainability\<close> only; the line count computed
  for each file is dropped when the result is built. Below, the whole result of a run on
  a project of two files.
\<close>

theorem result_without_overview:
  "analyzeCode
     \<lparr> tree = Dir [(''a.ts'', RegularFile), (''b.js'', RegularFile)],
       contents = (\<lambda>path. if path = ''/p/a.ts'' then Some ''if (x) {\<newline>}''
                          else if path = ''/p/b.js'' then Some ''// note\<newline>f();\<newline>\<newline>''
                          else None) \<rparr> ''/p''
   = Inr \<lparr> complexity =
             \<lparr> c_score = 63,
               c_details = [\<lparr> cd_file = ''/a.ts'', cd_complexity = 100, cd_maintainability = 0 \<rparr>,
                            \<lparr> cd_file = ''/b.js'', cd_complexity = 25, cd_maintainability = 25 \<rparr>] \<rparr>,
           duplication = \<lparr> percentage = 0, instances = [] \<rparr>,
           maintainability =
             \<lparr> m_score = 13,
               m_details = [\<lparr> md_file = ''/a.ts'', md_score = 0, issues = [] \<rparr>,
                            \<lparr> md_file = ''/b.js'', md_score = 25, issues = [] \<rparr>] \<rparr> \<rparr>"
  by (simp add: run_defs metric_defs string_defs)

subsection \<open>C4: a file that cannot be read\<close>

text \<open>
  Claim C4 says that an error confined to one file never aborts the run. In the code,
  \<^verbatim>\<open>readFileSync\<close> is called inside \<^verbatim>\<open>files.map\<close> without a handler of its own, and the
  \<^verbatim>\<open>catch\<close> of \<^verbatim>\<open>analyzeCode\<close> throws the error again. Below, a project of two files of
  which the second cannot be read: the run ends with the error of that file.
\<close>

theorem unreadable_file_aborts_the_run:
  "analyzeCode
     \<lparr> tree = Dir [(''a.ts'', RegularFile), (''b.ts'', RegularFile)],
       contents = (\<lambda>path. if path = ''/p/a.ts'' then Some ''f();'' else None) \<rparr> ''/p''
   = Inl (ReadError ''/p/b.ts'')"
  by (simp add: run_defs string_defs)

subsection \<open>C5: the complexity formula\<close>

text \<open>
  Claim C5 as stated counts the occurrences of \<^verbatim>\<open>switch\<close>/\<^verbatim>\<open>match\<close>. The code has no
  pattern for \<^verbatim>\<open>match\<close>: on the four-line text below it returns 25, where the formula
  of the claim gives 50.
\<close>

theorem match_keyword_not_counted:
  "calculateBasicComplexity ''match (x) {\<newline>}\<newline>\<newline>'' = 25 \<and>
   specified_complexity ''match (x) {\<newline>}\<newline>\<newline>'' = 50"
  by (simp add: specified_complexity_def occurrences_starts metric_defs string_defs)

text \<open>
  Claim C5, amended: for every file text, the line count is one more than the number of
  line feeds (so at least 1), and the complexity value is
  \<open>min(100, ((1 + ifs + fors + whiles + switches) / lineCount) * 100)\<close>, where an
  occurrence of a keyword is a position at which the keyword, optional white space and
  an opening parenthesis stand, each occurrence counted once; \<^verbatim>\<open>match\<close> is not
  counted. The value lies in \<open>(0, 100]\<close>.
\<close>

theorem calculateBasicComplexity_formula:
  "calculateBasicComplexity content =
     min 100 ((real (1 + occurrences ''if'' content + occurrences ''for'' content
                       + occurrences ''while'' content + occurrences ''switch'' content)
               / real (lineCount content)) * 100)
   \<and> lineCount content = Suc (length (filter (\<lambda>c. c = CHR 0x0A) content))
   \<and> 0 < calculateBasicComplexity content \<and> calculateBasicComplexity content \<le> 100"
proof -
  have "0 < real (1 + ifCount content + forCount content + whileCount content
                       + switchCount content) / real (lineCount content) * 100"
    using lineCount_pos [of content] by simp
  then have "calculateBasicComplexity content =
     min 100 ((real (1 + ifCount content + forCount content + whileCount content
                       + switchCount content) / real (lineCount content)) * 100)
     \<and> 0 < calculateBasicComplexity content \<and> calculateBasicComplexity content \<le> 100"
    unfolding calculateBasicComplexity_def Let_def lineCount_def by simp
  then show ?thesis
    by (simp only: keyword_counts lineCount_def length_split_newline) simp
qed

subsection \<open>C6: the empty text\<close>

text \<open>
  Claim C6 as stated gives the empty text complexity 0. \<^verbatim>\<open>''.split('\n')\<close> has one
  (empty) piece, so the code computes \<open>min(100, (1 / 1) * 100)\<close>.
\<close>

theorem empty_text_complexity_not_zero:
  "calculateBasicComplexity [] = 100 \<and> calculateBasicComplexity [] \<noteq> 0"
  by (simp add: metric_defs)

text \<open>
  Claim C6, amended: the line count of every text is at least 1, so neither score divides
  by zero; the empty text has line count 1, maintainability 0 and complexity 100.
\<close>

theorem empty_text_metrics:
  "0 < lineCount content \<and> lineCount [] = 1
   \<and> calculateBasicMaintainability [] = 0 \<and> calculateBasicComplexity [] = 100"
  using lineCount_pos [of content] by (simp add: metric_defs)

subsection \<open>C7: determinism and the order of the details\<close>




subsection \<open>C8: the overall score and the health label\<close>


subsection \<open>C9: complexity grows with each construct\<close>



subsection \<open>C10: no maintainability issue is ever recorded\<close>

text \<open>
  Claim C10: in the result of every successful run, the issues list of every element of
  \<^verbatim>\<open>maintainability.details\<close> is empty; so the file-specific rule of the recommendation
  generator (the first three files with a recorded issue) emits nothing, and the
  recommendations are those of the threshold rules alone.
\<close>

theorem issues_always_empty:
  assumes "analyzeCode fs p = Inr r"
  shows "(\<forall>d\<in>set (m_details (maintainability r)). issues d = [])
         \<and> fileRecommendations r = []
         \<and> generateRecommendations r = thresholdRecommendations r"
proof -
  from assms obtain fas where r: "r = assemble fas"
    using analyzeCode_Inr_D by blast
  then have 1: "\<forall>d\<in>set (m_details (maintainability r)). issues d = []"
    using assemble_issues by simp
  then have "filter (\<lambda>detail. length (issues detail) > 0) (m_details (maintainability r)) = []"
    by (simp add: filter_empty_conv)
  then have 2: "fileRecommendations r = []" by (simp add: fileRecommendations_def)
  with 1 show ?thesis by (simp add: generateRecommendations_def)
qed

text \<open>The run on a project of two files: its result has no issue, and the only
  recommendation is the one of the maintainability threshold.\<close>

theorem issues_always_empty_witness:
  "analyzeCode
     \<lparr> tree = Dir [(''a.ts'', RegularFile), (''b.js'', RegularFile)],
       contents = (\<lambda>path. if path = ''/p/a.ts'' then Some ''if (x) {\<newline>}''
                          else if path = ''/p/b.js'' then Some ''// note\<newline>f();\<newline>\<newline>''
                          else None) \<rparr> ''/p''
   = Inr \<lparr> complexity =
         \<lparr> c_score = 63,
           c_details = [\<lparr> cd_file = ''/a.ts'', cd_complexity = 100, cd_maintainability = 0 \<rparr>,
                        \<lparr> cd_file = ''/b.js'', cd_complexity = 25, cd_maintainability = 25 \<rparr>] \<rparr>,
       duplication = \<lparr> percentage = 0, instances = [] \<rparr>,
       maintainability =
         \<lparr> m_score = 13,
           m_details = [\<lparr> md_file = ''/a.ts'', md_score = 0, issues = [] \<rparr>,
                        \<lparr> md_file = ''/b.js'', md_score = 25, issues = [] \<rparr>] \<rparr> \<rparr>
   \<and> generateRecommendations
     \<lparr> complexity =
         \<lparr> c_score = 63,
           c_details = [\<lparr> cd_file = ''/a.ts'', cd_complexity = 100, cd_maintainability = 0 \<rparr>,
                        \<lparr> cd_file = ''/b.js'', cd_complexity = 25, cd_maintainability = 25 \<rparr>] \<rparr>,
       duplication = \<lparr> percentage = 0, instances = [] \<rparr>,
       maintainability =
         \<lparr> m_score = 13,
           m_details = [\<lparr> md_file = ''/a.ts'', md_score = 0, issues = [] \<rparr>,
                        \<lparr> md_file = ''/b.js'', md_score = 25, issues = [] \<rparr>] \<rparr> \<rparr>
   = [''Focus on improving code maintainability through better documentation and simpler code structures'']"
proof -
  let ?fs = "\<lparr> tree = Dir [(''a.ts'', RegularFile), (''b.js'', RegularFile)],
       contents = (\<lambda>path. if path = ''/p/a.ts'' then Some ''if (x) {\<newline>}''
                          else if path = ''/p/b.js'' then Some ''// note\<newline>f();\<newline>\<newline>''
                          else None) \<rparr>"
  let ?r = "\<lparr> complexity =
         \<lparr> c_score = 63,
           c_details = [\<lparr> cd_file = ''/a.ts'', cd_complexity = 100, cd_maintainability = 0 \<rparr>,
                        \<lparr> cd_file = ''/b.js'', cd_complexity = 25, cd_maintainability = 25 \<rparr>] \<rparr>,
       duplication = \<lparr> percentage = 0, instances = [] \<rparr>,
       maintainability =
         \<lparr> m_score = 13,
           m_details = [\<lparr> md_file = ''/a.ts'', md_score = 0, issues = [] \<rparr>,
                        \<lparr> md_file = ''/b.js'', md_score = 25, issues = [] \<rparr>] \<rparr> \<rparr>"
  have run: "analyzeCode ?fs ''/p'' = Inr ?r"
    by (simp add: run_defs metric_defs string_defs)
  from issues_always_empty [OF run]
  have "generateRecommendations ?r = thresholdRecommendations ?r"
    by blast
  then have "generateRecommendations ?r
     = [''Focus on improving code maintainability through better documentation and simpler code structures'']"
    by (simp add: thresholdRecommendations_def)
  with run show ?thesis by simp
qed

section \<open>Further properties of the engine\<close>

subsection \<open>One detail per discovered file\<close>

text \<open>
  In the result of a successful run, \<^verbatim>\<open>complexity.details\<close> and
  \<^verbatim>\<open>maintainability.details\<close> have one element per discovered file.
\<close>

theorem details_count_is_file_count:
  assumes "analyzeCode fs p = Inr r"
  shows "length (c_details (complexity r)) = length (getAllFiles (tree fs) p extensions)
       \<and> length (m_details (maintainability r)) = length (getAllFiles (tree fs) p extensions)"
proof -
  from assms obtain fas where
    m: "map_throwing (analyzeFile fs p) (getAllFiles (tree fs) p extensions) = Inr fas"
    and r: "r = assemble fas"
    using analyzeCode_Inr_D by blast
  from m have "length fas = length (getAllFiles (tree fs) p extensions)"
    by (rule map_throwing_length)
  with r show ?thesis by (simp add: assemble_def)
qed

theorem details_count_is_file_count_witness:
  "length (getAllFiles (Dir [(''src'', Dir [(''a.ts'', RegularFile), (''b.tsx'', RegularFile)]),
                             (''README.md'', RegularFile)]) ''/p'' extensions) = 2
   \<and> (case analyzeCode
          \<lparr> tree = Dir [(''src'', Dir [(''a.ts'', RegularFile), (''b.tsx'', RegularFile)]),
                        (''README.md'', RegularFile)],
            contents = (\<lambda>path. Some ''x'') \<rparr> ''/p''
       of Inl e \<Rightarrow> None
        | Inr r \<Rightarrow> Some (length (c_details (complexity r)),
                        length (m_details (maintainability r))))
     = Some (2, 2)"
proof -
  let ?fs = "\<lparr> tree = Dir [(''src'', Dir [(''a.ts'', RegularFile), (''b.tsx'', RegularFile)]),
                        (''README.md'', RegularFile)],
            contents = (\<lambda>path. Some ''x'') \<rparr>"
  have g: "getAllFiles (tree ?fs) ''/p'' extensions = [''/p/src/a.ts'', ''/p/src/b.tsx'']"
    by (simp add: run_defs string_defs)
  obtain r where r: "analyzeCode ?fs ''/p'' = Inr r"
    by (simp add: run_defs string_defs)
  from details_count_is_file_count [OF r] g r show ?thesis by simp
qed

subsection \<open>When a run fails\<close>

text \<open>
  A run fails exactly when some discovered file cannot be read, and its error is the
  error of the first such file in discovery order.
\<close>

theorem run_fails_iff_a_file_is_unreadable:
  "analyzeCode fs p = Inl e \<longleftrightarrow>
     (\<exists>as b bs. getAllFiles (tree fs) p extensions = as @ b # bs
        \<and> (\<forall>a\<in>set as. contents fs a \<noteq> None) \<and> contents fs b = None \<and> e = ReadError b)"
proof
  assume "analyzeCode fs p = Inl e"
  then have "map_throwing (analyzeFile fs p) (getAllFiles (tree fs) p extensions) = Inl e"
    by (simp only: analyzeCode_Inl_iff_map)
  then obtain as b bs where
    "getAllFiles (tree fs) p extensions = as @ b # bs"
    "\<forall>a\<in>set as. \<exists>y. analyzeFile fs p a = Inr y" "analyzeFile fs p b = Inl e"
    using map_throwing_Inl_split by blast
  then have "getAllFiles (tree fs) p extensions = as @ b # bs
        \<and> (\<forall>a\<in>set as. contents fs a \<noteq> None) \<and> contents fs b = None \<and> e = ReadError b"
    by (simp add: analyzeFile_Inl_iff analyzeFile_Inr_iff)
  then show "\<exists>as b bs. getAllFiles (tree fs) p extensions = as @ b # bs
        \<and> (\<forall>a\<in>set as. contents fs a \<noteq> None) \<and> contents fs b = None \<and> e = ReadError b"
    by blast
next
  assume "\<exists>as b bs. getAllFiles (tree fs) p extensions = as @ b # bs
        \<and> (\<forall>a\<in>set as. contents fs a \<noteq> None) \<and> contents fs b = None \<and> e = ReadError b"
  then obtain as b bs where g: "getAllFiles (tree fs) p extensions = as @ b # bs"
    and as: "\<forall>a\<in>set as. contents fs a \<noteq> None" and b: "contents fs b = None" "e = ReadError b"
    by blast
  from as have 1: "\<forall>a\<in>set as. \<exists>y. analyzeFile fs p a = Inr y"
    by (simp add: analyzeFile_Inr_iff)
  from b have 2: "analyzeFile fs p b = Inl e" by (simp add: analyzeFile_Inl_iff)
  from map_throwing_Inl_first [OF 1 2]
  have "map_throwing (analyzeFile fs p) (as @ b # bs) = Inl e" .
  with g show "analyzeCode fs p = Inl e" by (simp only: analyzeCode_Inl_iff_map)
qed

text \<open>Three files, of which the second and the third cannot be read: the error is the
  one of the second.\<close>

theorem run_fails_iff_a_file_is_unreadable_witness:
  "analyzeCode
     \<lparr> tree = Dir [(''a.ts'', RegularFile), (''b.ts'', RegularFile), (''c.ts'', RegularFile)],
       contents = (\<lambda>path. if path = ''/p/a.ts'' then Some ''f();'' else None) \<rparr> ''/p''
   = Inl (ReadError ''/p/b.ts'')"
proof -
  let ?fs = "\<lparr> tree = Dir [(''a.ts'', RegularFile), (''b.ts'', RegularFile), (''c.ts'', RegularFile)],
       contents = (\<lambda>path. if path = ''/p/a.ts'' then Some ''f();'' else None) \<rparr>"
  have "getAllFiles (tree ?fs) ''/p'' extensions = [''/p/a.ts''] @ ''/p/b.ts'' # [''/p/c.ts'']
        \<and> (\<forall>a\<in>set [''/p/a.ts'']. contents ?fs a \<noteq> None) \<and> contents ?fs ''/p/b.ts'' = None
        \<and> ReadError ''/p/b.ts'' = ReadError ''/p/b.ts''"
    by (simp add: run_defs string_defs)
  then have "\<exists>as b bs. getAllFiles (tree ?fs) ''/p'' extensions = as @ b # bs
        \<and> (\<forall>a\<in>set as. contents ?fs a \<noteq> None) \<and> contents ?fs b = None
        \<and> ReadError ''/p/b.ts'' = ReadError b"
    by blast
  then show ?thesis
    by (rule run_fails_iff_a_file_is_unreadable [THEN iffD2])
qed

subsection \<open>The project scores are rounded means\<close>

text \<open>
  \<^verbatim>\<open>calculateOverallScore\<close> of \<^verbatim>\<open>codeAnalysis.ts\<close>, which gives \<^verbatim>\<open>complexity.score\<close>
  and \<^verbatim>\<open>maintainability.score\<close>, is the arithmetic mean rounded to the nearest integer,
  and 0 for no files.
\<close>

theorem calculateOverallScore_rounded_mean:
  "calculateOverallScore scores =
     (if scores = [] then 0 else real_of_int (round (sum_list scores / real (length scores))))"
  by (simp add: calculateOverallScore_def Math_round_eq_round foldl_plus_sum_list)

subsection \<open>Hidden directories are pruned\<close>

text \<open>
  A directory whose name begins with a dot contributes nothing to the discovered
  files, whatever it holds.
\<close>

theorem hidden_directories_pruned:
  assumes "isDirectory entry" and "starts_with name ''.''"
  shows "getAllFiles_loop ((name, entry) # entries) dir exts = getAllFiles_loop entries dir exts"
  using assms by (cases entry) simp_all

theorem hidden_directories_pruned_witness:
  "getAllFiles_loop [(''.git'', Dir [(''hook.js'', RegularFile)]), (''a.ts'', RegularFile)]
     ''/p'' extensions
   = getAllFiles_loop [(''a.ts'', RegularFile)] ''/p'' extensions
   \<and> getAllFiles (Dir [(''.git'', Dir [(''hook.js'', RegularFile)]), (''a.ts'', RegularFile)])
       ''/p'' extensions = [''/p/a.ts'']"
proof -
  have 1: "isDirectory (Dir [(''hook.js'', RegularFile)])" by simp
  have 2: "starts_with ''.git'' ''.''" by (simp add: starts_with_def)
  have "getAllFiles_loop [(''a.ts'', RegularFile)] ''/p'' extensions = [''/p/a.ts'']"
    by (simp add: run_defs string_defs)
  with hidden_directories_pruned [OF 1 2, of "[(''a.ts'', RegularFile)]" "''/p''" extensions]
  show ?thesis by simp
qed

subsection \<open>Every score is between 0 and 100\<close>

text \<open>
  In the result of a successful run, the two project scores and every per-file
  value lie in \<open>[0, 100]\<close>, and so does the overall score of the analyze route.
\<close>

theorem scores_in_range:
  assumes "analyzeCode fs p = Inr r"
  shows "0 \<le> c_score (complexity r) \<and> c_score (complexity r) \<le> 100
       \<and> 0 \<le> m_score (maintainability r) \<and> m_score (maintainability r) \<le> 100
       \<and> (\<forall>d\<in>set (c_details (complexity r)).
             0 \<le> cd_complexity d \<and> cd_complexity d \<le> 100
           \<and> 0 \<le> cd_maintainability d \<and> cd_maintainability d \<le> 100)
       \<and> 0 \<le> route_calculateOverallScore r \<and> route_calculateOverallScore r \<le> 100"
proof -
  from assms obtain fas where
    m: "map_throwing (analyzeFile fs p) (getAllFiles (tree fs) p extensions) = Inr fas"
    and r: "r = assemble fas"
    using analyzeCode_Inr_D by blast
  have fas: "\<forall>a\<in>set fas. 0 \<le> fa_complexity a \<and> fa_complexity a \<le> 100
                 \<and> 0 \<le> fa_maintainability a \<and> fa_maintainability a \<le> 100"
  proof
    fix a assume "a \<in> set fas"
    with map_throwing_pointwise [OF m] obtain f where "analyzeFile fs p f = Inr a" by blast
    then obtain c where "fa_complexity a = calculateBasicComplexity c"
      "fa_maintainability a = calculateBasicMaintainability c"
      by (auto simp: analyzeFile_def split: sum.splits)
    then show "0 \<le> fa_complexity a \<and> fa_complexity a \<le> 100
                 \<and> 0 \<le> fa_maintainability a \<and> fa_maintainability a \<le> 100"
      using calculateBasicComplexity_bounds [of c] calculateBasicMaintainability_bounds [of c]
      by simp
  qed
  then have c: "0 \<le> c_score (complexity r) \<and> c_score (complexity r) \<le> 100"
    unfolding r assemble_def using calculateOverallScore_bounds [of "map fa_complexity fas"]
    by simp
  from fas have mm: "0 \<le> m_score (maintainability r) \<and> m_score (maintainability r) \<le> 100"
    unfolding r assemble_def using calculateOverallScore_bounds [of "map fa_maintainability fas"]
    by simp
  from fas have d: "\<forall>d\<in>set (c_details (complexity r)).
             0 \<le> cd_complexity d \<and> cd_complexity d \<le> 100
           \<and> 0 \<le> cd_maintainability d \<and> cd_maintainability d \<le> 100"
    unfolding r assemble_def by simp
  have p: "percentage (duplication r) = 0" unfolding r assemble_def by simp
  have "0 \<le> c_score (complexity r) * (3 / 10) + m_score (maintainability r) * (4 / 10)
                     + (100 - percentage (duplication r)) * (3 / 10)"
    using c mm p by simp
  moreover have "c_score (complexity r) * (3 / 10) + m_score (maintainability r) * (4 / 10)
                     + (100 - percentage (duplication r)) * (3 / 10) \<le> 100"
    using c mm p by simp
  ultimately have "0 \<le> route_calculateOverallScore r \<and> route_calculateOverallScore r \<le> 100"
    unfolding route_calculateOverallScore_def Let_def by (rule Math_round_bounds)
  with c mm d show ?thesis by blast
qed

text \<open>The project of two files used above: scores 63 and 13, overall score 54, label
  "Fair".\<close>

theorem scores_in_range_witness:
  "(case analyzeCode
          \<lparr> tree = Dir [(''a.ts'', RegularFile), (''b.js'', RegularFile)],
            contents = (\<lambda>path. if path = ''/p/a.ts'' then Some ''if (x) {\<newline>}''
                          else if path = ''/p/b.js'' then Some ''// note\<newline>f();\<newline>\<newline>''
                          else None) \<rparr> ''/p''
    of Inl e \<Rightarrow> None
     | Inr r \<Rightarrow> Some (c_score (complexity r), m_score (maintainability r),
                     route_calculateOverallScore r,
                     0 \<le> route_calculateOverallScore r \<and> route_calculateOverallScore r \<le> 100,
                     getHealthStatus (route_calculateOverallScore r)))
   = Some (63, 13, 54, True, ''Fair'')"
proof -
  let ?fs = "\<lparr> tree = Dir [(''a.ts'', RegularFile), (''b.js'', RegularFile)],
            contents = (\<lambda>path. if path = ''/p/a.ts'' then Some ''if (x) {\<newline>}''
                          else if path = ''/p/b.js'' then Some ''// note\<newline>f();\<newline>\<newline>''
                          else None) \<rparr>"
  obtain r where r: "analyzeCode ?fs ''/p'' = Inr r"
    and c: "c_score (complexity r) = 63" and m: "m_score (maintainability r) = 13"
    and p: "percentage (duplication r) = 0"
    by (simp add: run_defs metric_defs string_defs)
  have o: "route_calculateOverallScore r = 54"
    using c m p by (simp add: route_calculateOverallScore_def Math_round_def)
  from scores_in_range [OF r]
  have "0 \<le> route_calculateOverallScore r \<and> route_calculateOverallScore r \<le> 100"
    by blast
  with r c m o show ?thesis by (simp add: getHealthStatus_def)
qed

end
